theory Spec2Isabelle
  imports Main "HOL-Library.AList"
begin

section \<open>The Remini client: data model\<close>

text \<open>
  The module \<^verbatim>\<open>remini.py\<close> is a client of a remote HTTP service. Everything it does
  beyond computing values is made explicit here: the object \<^verbatim>\<open>self\<close> is a record that
  the methods return updated, the file system and the log of issued HTTP calls are fields
  of a \<open>world\<close> record, an exception is the \<open>Inl\<close> branch of a sum, and the unbounded
  polling loop is a recursion on a number of permitted iterations.
\<close>

subsection \<open>Python values read from JSON\<close>

datatype json =
    JNull
  | JBool bool
  | JNum int
  | JStr string
  | JArr "json list"
  | JObj "(string \<times> json) list"

text \<open>Python's truth value of an object, as used by \<^verbatim>\<open>if x\<close>, \<^verbatim>\<open>not x\<close> and \<^verbatim>\<open>all\<close>.\<close>

fun truthy :: "json \<Rightarrow> bool" where
  "truthy JNull = False"
| "truthy (JBool b) = b"
| "truthy (JNum n) = (n \<noteq> 0)"
| "truthy (JStr s) = (s \<noteq> [])"
| "truthy (JArr xs) = (xs \<noteq> [])"
| "truthy (JObj kvs) = (kvs \<noteq> [])"

subsection \<open>Exceptions\<close>

text \<open>
  The module has one exception class of its own, \<^verbatim>\<open>ReminiError\<close>; its instances differ in
  their message only, so the message (one constructor per \<^verbatim>\<open>raise\<close> statement, with the
  value interpolated into it) is what tells the raise sites apart. The remaining
  constructors are the exceptions of Python and of the HTTP library that the module lets
  through.
\<close>

datatype remini_message =
    ActivationFailed
  | TokenNotFound json
  | SetupHTTPError nat
  | GCSUploadFailed nat
  | MissingTaskFields json
  | UploadURLRequestFailed nat
  | ReprocessNoTaskId json
  | ReprocessFailed nat
  | PingFailed nat
  | PollingFailed nat
  | TaskFailed json
  | DownloadFailed nat
  | NoFinalURL
  | BaseTaskIncomplete

datatype error =
    ReminiError remini_message
  | FileNotFoundError string
  | OSError
  | JSONDecodeError
  | AttributeError
  | TypeError
  | KeyError
  | UnicodeDecodeError
  | RecursionError
  | RequestError

text \<open>Sequencing of two computations that may raise.\<close>

fun and_then :: "error + 'a \<Rightarrow> ('a \<Rightarrow> error + 'b) \<Rightarrow> error + 'b" where
  "and_then (Inl e) f = Inl e"
| "and_then (Inr x) f = f x"

text \<open>\<^verbatim>\<open>d.get(key, default)\<close>: only a dict has the method.\<close>

fun py_get :: "json \<Rightarrow> string \<Rightarrow> json \<Rightarrow> error + json" where
  "py_get (JObj kvs) k d = Inr (case map_of kvs k of None \<Rightarrow> d | Some v \<Rightarrow> v)"
| "py_get _ k d = Inl AttributeError"

subsection \<open>HTTP calls and the world\<close>

datatype http_method = GET | POST | PUT

text \<open>
  The URLs are the module's f-string templates, with the interpolated value kept as it
  is; \<open>Location\<close> is a URL that the service supplied (upload target, artifact).
\<close>

datatype endpoint =
    Setup
  | UsersMe
  | Tasks
  | Task json
  | TaskReprocess json
  | TaskProcess json
  | Location json

datatype payload = NoBody | JsonBody json | Content string

record request =
  verb :: http_method
  target :: endpoint
  headers :: "(string \<times> json) list"
  payload :: payload

text \<open>
  A response has a status code, the value \<^verbatim>\<open>response.json()\<close> decodes from its body
  (\<open>None\<close> when the decoder raises) and the body as the chunks in which it arrives. A
  call to the HTTP library that raises anything but \<^verbatim>\<open>HTTPStatusError\<close> has no response.
\<close>

record response =
  status_code :: nat
  json_body :: "json option"
  chunks :: "string list"

datatype outcome = NoResponse | Response response

text \<open>
  A file is absent, present (with its size) but not openable for reading, or stored with
  its bytes and with what \<^verbatim>\<open>json.load\<close> does with them: the value it returns, or the
  exception it raises (\<^verbatim>\<open>JSONDecodeError\<close> on text that is not JSON,
  \<^verbatim>\<open>UnicodeDecodeError\<close> on bytes that are not text, \<^verbatim>\<open>RecursionError\<close> on nesting
  that is too deep, an \<^verbatim>\<open>OSError\<close> when reading fails).
\<close>

datatype file_state = Absent | Unreadable nat | Stored string "error + json"

text \<open>
  The world: the file system, which paths can be opened for writing, the outcome of the
  n-th call to the HTTP library, the calls issued so far, the two renderings of the clock
  that the module reads, and the library functions it calls on file contents.
  \<open>image_size\<close> is \<open>None\<close> when Pillow is not installed or cannot open the file.
\<close>

record world =
  fs :: "string \<Rightarrow> file_state"
  writable :: "string \<Rightarrow> bool"
  replies :: "nat \<Rightarrow> outcome"
  sent :: "request list"
  first_install_timestamp :: string
  strftime_now :: string
  md5_base64 :: "string \<Rightarrow> string"
  guess_type :: "string \<Rightarrow> string option"
  image_size :: "string \<Rightarrow> (nat \<times> nat) option"
  json_text :: "json \<Rightarrow> string"

definition http :: "world \<Rightarrow> request \<Rightarrow> outcome \<times> world" where
  "http w req = (replies w (length (sent w)), w\<lparr>sent := sent w @ [req]\<rparr>)"

text \<open>\<^verbatim>\<open>response.raise_for_status()\<close> raises unless the status code is 2xx.\<close>

definition is_success :: "response \<Rightarrow> bool" where
  "is_success r = (200 \<le> status_code r \<and> status_code r \<le> 299)"

definition exists_path :: "world \<Rightarrow> string \<Rightarrow> bool" where
  "exists_path w p = (fs w p \<noteq> Absent)"

subsection \<open>The client object\<close>

record device_ids =
  android_id :: string
  aaid :: string
  backup_persistent_id :: string
  non_backup_persistent_id :: string

text \<open>The three UUIDs drawn are arguments: the hex form of the first, the text of the others.\<close>

definition generate_device_ids :: "string \<Rightarrow> string \<Rightarrow> string \<Rightarrow> device_ids" where
  "generate_device_ids uuid_hex uuid2 uuid3 =
     (let android_id = take 16 uuid_hex in
      \<lparr>android_id = android_id,
       aaid = uuid2,
       backup_persistent_id = android_id @ ''_com.bigwinepot.nwdn.international'',
       non_backup_persistent_id = uuid3\<rparr>)"

record remini =
  token_path :: string
  identity_token :: json
  ids :: device_ids
  android_headers :: "(string \<times> json) list"

definition create_android_headers :: "device_ids \<Rightarrow> (string \<times> json) list" where
  "create_android_headers d =
     [(''bsp-id'', JStr ''com.bigwinepot.nwdn.international.android''),
      (''build-number'', JStr ''202514479''),
      (''build-version'', JStr ''3.7.1020''),
      (''country'', JStr ''US''),
      (''device-manufacturer'', JStr ''Samsung''),
      (''device-model'', JStr ''SM-G998B''),
      (''device-type'', JStr ''6.8''),
      (''language'', JStr ''en''),
      (''locale'', JStr ''en_US''),
      (''os-version'', JStr ''33''),
      (''platform'', JStr ''Android''),
      (''timezone'', JStr ''America/New_York''),
      (''android-id'', JStr (android_id d)),
      (''aaid'', JStr (aaid d)),
      (''accept-encoding'', JStr ''gzip''),
      (''user-agent'', JStr ''okhttp/4.12.0'')]"

definition init :: "string \<Rightarrow> device_ids \<Rightarrow> remini" where
  "init path d =
     \<lparr>token_path = path, identity_token = JNull, ids = d,
      android_headers = create_android_headers d\<rparr>"

definition get_common_headers :: "remini \<Rightarrow> string option \<Rightarrow> (string \<times> json) list" where
  "get_common_headers self content_type =
     (let headers = android_headers self;
          headers = (if truthy (identity_token self)
                     then AList.update ''identity-token'' (identity_token self) headers
                     else headers)
      in case content_type of
           None \<Rightarrow> headers
         | Some ct \<Rightarrow> if ct \<noteq> [] then AList.update ''content-type'' (JStr ct) headers
                      else headers)"

section \<open>The token store\<close>

text \<open>
  The clause \<^verbatim>\<open>except (json.JSONDecodeError, IOError)\<close> of the load step: \<^verbatim>\<open>IOError\<close> is
  \<^verbatim>\<open>OSError\<close>, of which \<^verbatim>\<open>FileNotFoundError\<close> is a subclass. Every other exception
  passes through it.
\<close>

fun load_catches :: "error \<Rightarrow> bool" where
  "load_catches JSONDecodeError = True"
| "load_catches OSError = True"
| "load_catches (FileNotFoundError path) = True"
| "load_catches _ = False"

definition load_identity_token :: "remini \<Rightarrow> world \<Rightarrow> error + remini" where
  "load_identity_token self w =
     (case fs w (token_path self) of
        Absent \<Rightarrow> Inr self
      | Unreadable n \<Rightarrow> Inr (self\<lparr>identity_token := JNull\<rparr>)
      | Stored bytes (Inl e) \<Rightarrow>
          if load_catches e then Inr (self\<lparr>identity_token := JNull\<rparr>) else Inl e
      | Stored bytes (Inr data) \<Rightarrow>
          and_then (py_get data ''identity_token'' JNull)
            (\<lambda>t. Inr (self\<lparr>identity_token := t\<rparr>)))"

definition save_identity_token :: "remini \<Rightarrow> world \<Rightarrow> error + world" where
  "save_identity_token self w =
     (if truthy (identity_token self) then
        (if writable w (token_path self) then
           (let doc = JObj [(''identity_token'', identity_token self)]
            in Inr (w\<lparr>fs := (fs w)(token_path self := Stored (json_text w doc) (Inr doc))\<rparr>))
         else Inl OSError)
      else Inr w)"

section \<open>Authentication\<close>

definition profile_request :: "remini \<Rightarrow> request" where
  "profile_request self =
     \<lparr>verb = GET, target = UsersMe,
      headers = get_common_headers self None, payload = NoBody\<rparr>"

definition get_user_profile :: "remini \<Rightarrow> world \<Rightarrow> (error + bool) \<times> world" where
  "get_user_profile self w =
     (if \<not> truthy (identity_token self) then (Inr False, w)
      else
        case http w (profile_request self) of
          (NoResponse, w') \<Rightarrow> (Inl RequestError, w')
        | (Response r, w') \<Rightarrow>
            if \<not> is_success r then (Inr False, w')
            else
              (case json_body r of
                 None \<Rightarrow> (Inl JSONDecodeError, w')
               | Some user_data \<Rightarrow>
                   (case py_get user_data ''balance'' (JStr ''N/A'') of
                      Inl e \<Rightarrow> (Inl e, w')
                    | Inr balance \<Rightarrow> (Inr True, w'))))"

definition setup_headers :: "remini \<Rightarrow> world \<Rightarrow> (string \<times> json) list" where
  "setup_headers self w =
     AList.updates
       [''first-install-timestamp'', ''backup-persistent-id'', ''non-backup-persistent-id'',
        ''environment'', ''settings-response-version'', ''is-app-running-in-background'',
        ''is-old-user'', ''app-set-id'']
       [JStr (first_install_timestamp w),
        JStr (backup_persistent_id (ids self)),
        JStr (non_backup_persistent_id (ids self)),
        JStr ''Production'', JStr ''v2'', JStr ''false'', JStr ''true'',
        JStr ''d44bd45a-a45d-4470-9674-7348a8e3fb71'']
       (get_common_headers self None)"

definition setup_request :: "remini \<Rightarrow> world \<Rightarrow> request" where
  "setup_request self w =
     \<lparr>verb = GET, target = Setup, headers = setup_headers self w, payload = NoBody\<rparr>"

text \<open>The token of a setup response: \<^verbatim>\<open>settings.__identity__.token\<close>, each step by \<^verbatim>\<open>get\<close>.\<close>

definition setup_token :: "json \<Rightarrow> error + json" where
  "setup_token data =
     and_then (py_get data ''settings'' (JObj [])) (\<lambda>settings.
     and_then (py_get settings ''__identity__'' (JObj [])) (\<lambda>identity.
       py_get identity ''token'' JNull))"

definition get_setup :: "remini \<Rightarrow> world \<Rightarrow> (error + unit) \<times> remini \<times> world" where
  "get_setup self w =
     (case http w (setup_request self w) of
        (NoResponse, w') \<Rightarrow> (Inl RequestError, self, w')
      | (Response r, w') \<Rightarrow>
          if \<not> is_success r then (Inl (ReminiError (SetupHTTPError (status_code r))), self, w')
          else
            (case json_body r of
               None \<Rightarrow> (Inl JSONDecodeError, self, w')
             | Some data \<Rightarrow>
                 (case setup_token data of
                    Inl e \<Rightarrow> (Inl e, self, w')
                  | Inr token \<Rightarrow>
                      if \<not> truthy token then (Inl (ReminiError (TokenNotFound data)), self, w')
                      else
                        (let self' = self\<lparr>identity_token := token\<rparr>
                         in case save_identity_token self' w' of
                              Inl e \<Rightarrow> (Inl e, self', w')
                            | Inr w'' \<Rightarrow> (Inr (), self', w'')))))"

definition login :: "remini \<Rightarrow> world \<Rightarrow> (error + unit) \<times> remini \<times> world" where
  "login self w =
     (case load_identity_token self w of
        Inl e \<Rightarrow> (Inl e, self, w)
      | Inr self1 \<Rightarrow>
          (case (if truthy (identity_token self1) then get_user_profile self1 w
                 else (Inr False, w)) of
             (Inl e, w1) \<Rightarrow> (Inl e, self1, w1)
           | (Inr True, w1) \<Rightarrow> (Inr (), self1, w1)
           | (Inr False, w1) \<Rightarrow>
               (case get_setup self1 w1 of
                  (Inl e, self2, w2) \<Rightarrow> (Inl e, self2, w2)
                | (Inr u, self2, w2) \<Rightarrow>
                    (case get_user_profile self2 w2 of
                       (Inl e, w3) \<Rightarrow> (Inl e, self2, w3)
                     | (Inr False, w3) \<Rightarrow> (Inl (ReminiError ActivationFailed), self2, w3)
                     | (Inr True, w3) \<Rightarrow> (Inr (), self2, w3)))))"

section \<open>Submitting a task\<close>

text \<open>\<^verbatim>\<open>str(n)\<close> of a length.\<close>

fun str_nat :: "nat \<Rightarrow> string" where
  "str_nat n =
     (if n < 10 then [char_of (48 + n)]
      else str_nat (n div 10) @ [char_of (48 + n mod 10)])"

declare str_nat.simps [simp del]

definition calculate_md5_base64 :: "world \<Rightarrow> string \<Rightarrow> error + string" where
  "calculate_md5_base64 w file_path =
     (case fs w file_path of
        Stored bytes parsed \<Rightarrow> Inr (md5_base64 w bytes)
      | _ \<Rightarrow> Inl OSError)"

definition get_image_metadata :: "world \<Rightarrow> string \<Rightarrow> error + json" where
  "get_image_metadata w file_path =
     (case fs w file_path of
        Absent \<Rightarrow> Inl OSError
      | Unreadable n \<Rightarrow> Inr (JObj [(''size'', JNum (int n))])
      | Stored bytes parsed \<Rightarrow>
          (let metadata = [(''size'', JNum (int (length bytes)))]
           in case image_size w bytes of
                None \<Rightarrow> Inr (JObj metadata)
              | Some (width, height) \<Rightarrow>
                  Inr (JObj (AList.update ''height'' (JNum (int height))
                              (AList.update ''width'' (JNum (int width)) metadata)))))"

definition upload_request ::
  "remini \<Rightarrow> json \<Rightarrow> string \<Rightarrow> (string \<times> json) list \<Rightarrow> json \<Rightarrow> request" where
  "upload_request self upload_url file_content gcs_headers agent =
     \<lparr>verb = PUT, target = Location upload_url,
      headers = AList.update ''User-Agent'' agent
        (AList.update ''Content-Length'' (JStr (str_nat (length file_content))) gcs_headers),
      payload = Content file_content\<rparr>"

definition upload_file_to_gcs ::
  "remini \<Rightarrow> world \<Rightarrow> json \<Rightarrow> string \<Rightarrow> json \<Rightarrow> (error + unit) \<times> world" where
  "upload_file_to_gcs self w upload_url file_path additional_headers =
     (case fs w file_path of
        Absent \<Rightarrow> (Inl OSError, w)
      | Unreadable n \<Rightarrow> (Inl OSError, w)
      | Stored file_content parsed \<Rightarrow>
          (case additional_headers of
             JObj gcs_headers \<Rightarrow>
               (case map_of (android_headers self) ''user-agent'' of
                  None \<Rightarrow> (Inl KeyError, w)
                | Some agent \<Rightarrow>
                    (case http w
                       (upload_request self upload_url file_content gcs_headers agent) of
                       (NoResponse, w') \<Rightarrow> (Inl RequestError, w')
                     | (Response r, w') \<Rightarrow>
                         if \<not> is_success r
                         then (Inl (ReminiError (GCSUploadFailed (status_code r))), w')
                         else (Inr (), w')))
           | JArr xs \<Rightarrow> (Inl TypeError, w)
           | _ \<Rightarrow> (Inl AttributeError, w)))"

definition task_request_body :: "world \<Rightarrow> string \<Rightarrow> json \<Rightarrow> error + json" where
  "task_request_body w file_path feature_payload =
     (let mime_type = (case guess_type w file_path of
                         None \<Rightarrow> ''image/jpeg''
                       | Some t \<Rightarrow> if t \<noteq> [] then t else ''image/jpeg'')
      in and_then (calculate_md5_base64 w file_path) (\<lambda>md5.
         and_then (get_image_metadata w file_path) (\<lambda>metadata.
           Inr (JObj [(''image_content_type'', JStr mime_type),
                      (''image_md5'', JStr md5),
                      (''feature'', feature_payload),
                      (''metadata'', metadata),
                      (''options'', JObj [(''high_quality_output'', JBool False),
                                          (''save_input'', JBool True)])]))))"

definition task_request :: "remini \<Rightarrow> json \<Rightarrow> request" where
  "task_request self request_body =
     \<lparr>verb = POST, target = Tasks,
      headers = get_common_headers self (Some ''application/json; charset=UTF-8''),
      payload = JsonBody request_body\<rparr>"

definition create_image_task ::
  "remini \<Rightarrow> world \<Rightarrow> string \<Rightarrow> json \<Rightarrow> (error + json) \<times> world" where
  "create_image_task self w file_path feature_payload =
     (case task_request_body w file_path feature_payload of
        Inl e \<Rightarrow> (Inl e, w)
      | Inr request_body \<Rightarrow>
          (case http w (task_request self request_body) of
             (NoResponse, w') \<Rightarrow> (Inl RequestError, w')
           | (Response r, w') \<Rightarrow>
               if \<not> is_success r
               then (Inl (ReminiError (UploadURLRequestFailed (status_code r))), w')
               else
                 (case json_body r of
                    None \<Rightarrow> (Inl JSONDecodeError, w')
                  | Some upload_info \<Rightarrow>
                      (case and_then (py_get upload_info ''task_id'' JNull) (\<lambda>task_id.
                            and_then (py_get upload_info ''upload_url'' JNull) (\<lambda>upload_url.
                            and_then (py_get upload_info ''upload_headers'' JNull) (\<lambda>upload_headers.
                              Inr (task_id, upload_url, upload_headers)))) of
                         Inl e \<Rightarrow> (Inl e, w')
                       | Inr (task_id, upload_url, upload_headers) \<Rightarrow>
                           if \<not> (truthy task_id \<and> truthy upload_url \<and> truthy upload_headers)
                           then (Inl (ReminiError (MissingTaskFields upload_info)), w')
                           else
                             (case upload_file_to_gcs self w' upload_url file_path
                                     upload_headers of
                                (Inl e, w'') \<Rightarrow> (Inl e, w'')
                              | (Inr u, w'') \<Rightarrow> (Inr task_id, w''))))))"

section \<open>Reprocessing, triggering and polling\<close>

definition reprocess_request :: "remini \<Rightarrow> json \<Rightarrow> json \<Rightarrow> request" where
  "reprocess_request self base_task_id feature_payload =
     \<lparr>verb = POST, target = TaskReprocess base_task_id,
      headers = get_common_headers self (Some ''application/json; charset=UTF-8''),
      payload = JsonBody (JObj [(''feature'', feature_payload)])\<rparr>"

definition reprocess_image_task ::
  "remini \<Rightarrow> world \<Rightarrow> json \<Rightarrow> json \<Rightarrow> (error + json) \<times> world" where
  "reprocess_image_task self w base_task_id feature_payload =
     (case http w (reprocess_request self base_task_id feature_payload) of
        (NoResponse, w') \<Rightarrow> (Inl RequestError, w')
      | (Response r, w') \<Rightarrow>
          if \<not> is_success r then (Inl (ReminiError (ReprocessFailed (status_code r))), w')
          else
            (case json_body r of
               None \<Rightarrow> (Inl JSONDecodeError, w')
             | Some data \<Rightarrow>
                 (case py_get data ''task_id'' JNull of
                    Inl e \<Rightarrow> (Inl e, w')
                  | Inr new_task_id \<Rightarrow>
                      if \<not> truthy new_task_id
                      then (Inl (ReminiError (ReprocessNoTaskId data)), w')
                      else (Inr new_task_id, w'))))"

definition ping_for_processing :: "remini \<Rightarrow> world \<Rightarrow> json \<Rightarrow> (error + unit) \<times> world" where
  "ping_for_processing self w task_id =
     (case http w
        \<lparr>verb = POST, target = TaskProcess task_id,
         headers = AList.update ''content-length'' (JStr ''0'') (get_common_headers self None),
         payload = NoBody\<rparr> of
        (NoResponse, w') \<Rightarrow> (Inl RequestError, w')
      | (Response r, w') \<Rightarrow>
          if \<not> is_success r then (Inl (ReminiError (PingFailed (status_code r))), w')
          else (Inr (), w'))"

text \<open>
  The branch of the polling loop for a decoded body whose status is \<^verbatim>\<open>"completed"\<close>:
  the URL of the first output, or \<^verbatim>\<open>None\<close>.
\<close>

definition completed_url :: "json \<Rightarrow> error + json" where
  "completed_url data =
     and_then (py_get data ''result'' (JObj [])) (\<lambda>result.
     and_then (py_get result ''outputs'' JNull) (\<lambda>outputs.
       case outputs of
         JArr (first # others) \<Rightarrow>
           and_then (py_get first ''url'' JNull)
             (\<lambda>url. if truthy url then Inr url else Inr JNull)
       | _ \<Rightarrow> Inr JNull))"

text \<open>
  The loop \<^verbatim>\<open>while True\<close> of \<^verbatim>\<open>_poll_status_http\<close> has no bound. The first argument is the
  number of iterations the loop is given; \<open>None\<close> is the loop still running when they are
  used up, with the world as the iterations left it.
\<close>

definition status_request :: "remini \<Rightarrow> json \<Rightarrow> request" where
  "status_request self task_id =
     \<lparr>verb = GET, target = Task task_id,
      headers = get_common_headers self None, payload = NoBody\<rparr>"

fun poll_status_http ::
  "nat \<Rightarrow> remini \<Rightarrow> world \<Rightarrow> json \<Rightarrow> (error + json) option \<times> world" where
  "poll_status_http 0 self w task_id = (None, w)"
| "poll_status_http (Suc fuel) self w task_id =
     (case http w (status_request self task_id) of
        (NoResponse, w') \<Rightarrow> (Some (Inl RequestError), w')
      | (Response r, w') \<Rightarrow>
          if status_code r = 404 then poll_status_http fuel self w' task_id
          else if \<not> is_success r
          then (Some (Inl (ReminiError (PollingFailed (status_code r)))), w')
          else
            (case json_body r of
               None \<Rightarrow> (Some (Inl JSONDecodeError), w')
             | Some data \<Rightarrow>
                 (case py_get data ''status'' JNull of
                    Inl e \<Rightarrow> (Some (Inl e), w')
                  | Inr status \<Rightarrow>
                      if status = JStr ''completed'' then (Some (completed_url data), w')
                      else if status \<in> {JStr ''failed'', JStr ''error''}
                      then (Some (and_then (py_get data ''errors'' JNull)
                                    (\<lambda>errors. Inl (ReminiError (TaskFailed errors)))), w')
                      else poll_status_http fuel self w' task_id)))"

section \<open>Downloading the artifact\<close>

definition download_file :: "remini \<Rightarrow> world \<Rightarrow> json \<Rightarrow> string \<Rightarrow> (error + unit) \<times> world" where
  "download_file self w url output_path =
     (case map_of (android_headers self) ''user-agent'' of
        None \<Rightarrow> (Inl KeyError, w)
      | Some agent \<Rightarrow>
          (case http w \<lparr>verb = GET, target = Location url,
                       headers = [(''user-agent'', agent)], payload = NoBody\<rparr> of
             (NoResponse, w') \<Rightarrow> (Inl RequestError, w')
           | (Response r, w') \<Rightarrow>
               if \<not> is_success r then (Inl (ReminiError (DownloadFailed (status_code r))), w')
               else if \<not> writable w' output_path then (Inl OSError, w')
               else (Inr (), w'\<lparr>fs := (fs w')(output_path :=
                                 Stored (concat (chunks r))
                                   (case json_body r of
                                      None \<Rightarrow> Inl JSONDecodeError
                                    | Some body \<Rightarrow> Inr body))\<rparr>)))"

subsection \<open>\<^verbatim>\<open>os.path.basename\<close> and \<^verbatim>\<open>os.path.splitext\<close> (POSIX)\<close>

text \<open>\<^verbatim>\<open>p.rfind(c)\<close>: the last index of the character, or -1.\<close>

definition rfind :: "char \<Rightarrow> string \<Rightarrow> int" where
  "rfind c p =
     (if c \<in> set p
      then int (length p) - 1 - int (length (takeWhile (\<lambda>x. x \<noteq> c) (rev p)))
      else - 1)"

definition basename :: "string \<Rightarrow> string" where
  "basename p = drop (nat (rfind (CHR ''/'') p + 1)) p"

text \<open>
  The extension starts at the last dot, provided the dot follows the last separator and
  some character between the two is not a dot.
\<close>

definition splitext :: "string \<Rightarrow> string \<times> string" where
  "splitext p =
     (let sepIndex = rfind (CHR ''/'') p;
          dotIndex = rfind (CHR ''.'') p
      in if dotIndex > sepIndex \<and>
            list_ex (\<lambda>c. c \<noteq> CHR ''.'') (drop (nat (sepIndex + 1)) (take (nat dotIndex) p))
         then (take (nat dotIndex) p, drop (nat dotIndex) p)
         else (p, []))"

section \<open>The two public workflows\<close>

text \<open>
  The configuration of the logging module that \<^verbatim>\<open>verbose\<close> asks for touches neither the
  files nor the network and is not part of the world.
\<close>

definition process_common ::
  "remini \<Rightarrow> world \<Rightarrow> string \<Rightarrow> string option \<Rightarrow> bool \<Rightarrow> json \<Rightarrow> (error + unit) \<times> world" where
  "process_common self w image_path output_path verbose final_url =
     (if \<not> truthy final_url then (Inl (ReminiError NoFinalURL), w)
      else
        (let derived = (case splitext (basename image_path) of
                          (name, ext) \<Rightarrow> name @ ''_remini_'' @ strftime_now w @ ext);
             output_path = (case output_path of
                              None \<Rightarrow> derived
                            | Some given \<Rightarrow> if given = [] then derived else given)
         in download_file self w final_url output_path))"

definition enhance_feature :: json where
  "enhance_feature = JObj [(''type'', JStr ''enhance''), (''models'', JArr [])]"

definition style_feature :: "string \<Rightarrow> json" where
  "style_feature style =
     JObj [(''type'', JStr ''stylization-v2''),
           (''pipelines'', JArr [JObj [(''id'', JStr style)]])]"

text \<open>
  Both workflows take the number of iterations given to each polling loop; the result
  is \<open>None\<close> when a loop is still running after them.
\<close>

definition process ::
  "nat \<Rightarrow> remini \<Rightarrow> world \<Rightarrow> string \<Rightarrow> string option \<Rightarrow> bool
     \<Rightarrow> (error + unit) option \<times> remini \<times> world" where
  "process fuel self w image_path output_path verbose =
     (if \<not> exists_path w image_path then (Some (Inl (FileNotFoundError image_path)), self, w)
      else
        case login self w of
          (Inl e, self1, w1) \<Rightarrow> (Some (Inl e), self1, w1)
        | (Inr u, self1, w1) \<Rightarrow>
            (case create_image_task self1 w1 image_path enhance_feature of
               (Inl e, w2) \<Rightarrow> (Some (Inl e), self1, w2)
             | (Inr task_id, w2) \<Rightarrow>
                 (case ping_for_processing self1 w2 task_id of
                    (Inl e, w3) \<Rightarrow> (Some (Inl e), self1, w3)
                  | (Inr u, w3) \<Rightarrow>
                      (case poll_status_http fuel self1 w3 task_id of
                         (None, w4) \<Rightarrow> (None, self1, w4)
                       | (Some (Inl e), w4) \<Rightarrow> (Some (Inl e), self1, w4)
                       | (Some (Inr final_url), w4) \<Rightarrow>
                           (case process_common self1 w4 image_path output_path verbose
                                   final_url of
                              (r, w5) \<Rightarrow> (Some r, self1, w5))))))"

definition stylize ::
  "nat \<Rightarrow> remini \<Rightarrow> world \<Rightarrow> string \<Rightarrow> string \<Rightarrow> string option \<Rightarrow> bool
     \<Rightarrow> (error + unit) option \<times> remini \<times> world" where
  "stylize fuel self w image_path style output_path verbose =
     (if \<not> exists_path w image_path then (Some (Inl (FileNotFoundError image_path)), self, w)
      else
        case login self w of
          (Inl e, self1, w1) \<Rightarrow> (Some (Inl e), self1, w1)
        | (Inr u, self1, w1) \<Rightarrow>
            (case create_image_task self1 w1 image_path enhance_feature of
               (Inl e, w2) \<Rightarrow> (Some (Inl e), self1, w2)
             | (Inr base_task_id, w2) \<Rightarrow>
                 (case ping_for_processing self1 w2 base_task_id of
                    (Inl e, w3) \<Rightarrow> (Some (Inl e), self1, w3)
                  | (Inr u, w3) \<Rightarrow>
                      (case poll_status_http fuel self1 w3 base_task_id of
                         (None, w4) \<Rightarrow> (None, self1, w4)
                       | (Some (Inl e), w4) \<Rightarrow> (Some (Inl e), self1, w4)
                       | (Some (Inr base_task_url), w4) \<Rightarrow>
                           if \<not> truthy base_task_url
                           then (Some (Inl (ReminiError BaseTaskIncomplete)), self1, w4)
                           else
                             (case reprocess_image_task self1 w4 base_task_id
                                     (style_feature style) of
                                (Inl e, w5) \<Rightarrow> (Some (Inl e), self1, w5)
                              | (Inr reprocess_task_id, w5) \<Rightarrow>
                                  (case poll_status_http fuel self1 w5 reprocess_task_id of
                                     (None, w6) \<Rightarrow> (None, self1, w6)
                                   | (Some (Inl e), w6) \<Rightarrow> (Some (Inl e), self1, w6)
                                   | (Some (Inr final_url), w6) \<Rightarrow>
                                       (case process_common self1 w6 image_path output_path
                                               verbose final_url of
                                          (r, w7) \<Rightarrow> (Some r, self1, w7))))))))"

section \<open>Concrete clients and worlds\<close>

text \<open>
  A world with no files and a network on which every call fails, and a client as its
  constructor leaves it. The examples below change them field by field.
\<close>

definition quiet_world :: world where
  "quiet_world =
     \<lparr>fs = (\<lambda>p. Absent), writable = (\<lambda>p. True), replies = (\<lambda>n. NoResponse), sent = [],
      first_install_timestamp = ''1700000000E9'', strftime_now = ''20240101_120000'',
      md5_base64 = (\<lambda>b. ''md5''), guess_type = (\<lambda>p. None), image_size = (\<lambda>b. None),
      json_text = (\<lambda>j. ''{}'')\<rparr>"

definition new_client :: remini where
  "new_client =
     init ''token.json''
       (generate_device_ids ''0123456789abcdef0123456789abcdef'' ''aaid'' ''nbpid'')"

text \<open>
  Responses, a network that answers the calls from a list, the documents of the token
  file and of the setup endpoint, and a world whose token file caches the token
  \<^verbatim>\<open>"stale"\<close>. In \<open>stale_run\<close> the service rejects that token, mints \<^verbatim>\<open>"fresh"\<close> and
  accepts it; in \<open>fresh_run\<close> there is no cache, and the service mints a token that it
  then rejects.
\<close>

definition ok_response :: "json \<Rightarrow> outcome" where
  "ok_response body = Response \<lparr>status_code = 200, json_body = Some body, chunks = []\<rparr>"

definition status_response :: "nat \<Rightarrow> outcome" where
  "status_response code = Response \<lparr>status_code = code, json_body = None, chunks = []\<rparr>"

definition script :: "outcome list \<Rightarrow> nat \<Rightarrow> outcome" where
  "script rs n = (if n < length rs then rs ! n else NoResponse)"

definition token_document :: "string \<Rightarrow> json" where
  "token_document t = JObj [(''identity_token'', JStr t)]"

definition setup_document :: "string \<Rightarrow> json" where
  "setup_document t =
     JObj [(''settings'', JObj [(''__identity__'', JObj [(''token'', JStr t)])])]"

definition cached_world :: "outcome list \<Rightarrow> world" where
  "cached_world rs =
     quiet_world\<lparr>fs := (fs quiet_world)(''token.json'' := Stored ''{}'' (Inr (token_document ''stale''))),
                 replies := script rs\<rparr>"



lemmas example_defs =
  quiet_world_def new_client_def init_def cached_world_def script_def ok_response_def
  status_response_def token_document_def setup_document_def

text \<open>
  The status field of a response, as the polling loop reads it (there is none unless the
  decoded body is an object), the responses on which the loop keeps polling, and a run of
  three status responses: not found, in progress, completed.
\<close>

definition status_field :: "response \<Rightarrow> json option" where
  "status_field r =
     (case json_body r of
        Some (JObj kvs) \<Rightarrow> Some (case map_of kvs ''status'' of None \<Rightarrow> JNull | Some v \<Rightarrow> v)
      | _ \<Rightarrow> None)"

definition keeps_polling :: "response \<Rightarrow> bool" where
  "keeps_polling r =
     (status_code r = 404
      \<or> (is_success r
          \<and> (case status_field r of
                None \<Rightarrow> False
              | Some s \<Rightarrow> s \<notin> {JStr ''completed'', JStr ''failed'', JStr ''error''})))"

definition polling_run :: world where
  "polling_run =
     quiet_world\<lparr>replies := script
       [status_response 404,
        ok_response (JObj [(''status'', JStr ''processing'')]),
        ok_response (JObj [(''status'', JStr ''completed''),
                           (''result'', JObj [(''outputs'',
                              JArr [JObj [(''url'', JStr ''https://x/base.jpg'')]])])])]\<rparr>"

text \<open>
  Two runs of task creation on a three-byte image: in \<open>upload_run\<close> the creation
  response carries the three fields and the upload is accepted; in \<open>short_reply_run\<close>
  the response lacks \<^verbatim>\<open>upload_url\<close>.
\<close>

definition upload_run :: world where
  "upload_run =
     quiet_world\<lparr>fs := (fs quiet_world)(''cat.png'' := Stored ''abc'' (Inl UnicodeDecodeError)),
                 replies := script
                   [ok_response (JObj [(''task_id'', JStr ''t1''),
                                       (''upload_url'', JStr ''https://storage/put''),
                                       (''upload_headers'', JObj [(''x-goog'', JStr ''1'')])]),
                    status_response 200]\<rparr>"

definition short_reply_run :: world where
  "short_reply_run =
     quiet_world\<lparr>fs := (fs quiet_world)(''cat.png'' := Stored ''abc'' (Inl UnicodeDecodeError)),
                 replies := script
                   [ok_response (JObj [(''task_id'', JStr ''t1''),
                                       (''upload_headers'', JObj [(''x-goog'', JStr ''1'')])]),
                    status_response 200]\<rparr>"

text \<open>A run in which the artifact arrives in two chunks.\<close>

definition download_run :: world where
  "download_run =
     quiet_world\<lparr>replies := script
       [Response \<lparr>status_code = 200, json_body = None, chunks = [''ab'', ''cd'']\<rparr>]\<rparr>"

text \<open>
  A call is a reprocess call when it goes to the reprocess endpoint of some task; a world
  has had none since an earlier one when the calls logged in between are none of them
  reprocess calls.
\<close>

definition is_reprocess :: "request \<Rightarrow> bool" where
  "is_reprocess req = (case target req of TaskReprocess base \<Rightarrow> True | _ \<Rightarrow> False)"

definition no_reprocess_since :: "world \<Rightarrow> world \<Rightarrow> bool" where
  "no_reprocess_since w w' =
     (take (length (sent w)) (sent w') = sent w
      \<and> list_all (\<lambda>r. \<not> is_reprocess r) (drop (length (sent w)) (sent w')))"

text \<open>
  Runs of \<^verbatim>\<open>stylize\<close> on a three-byte image with a valid cached token; the argument is
  the body of the status response for the base task. \<open>base_completed\<close> is the completed
  status with the output URL \<^verbatim>\<open>https://x/base.jpg\<close>.
\<close>

definition base_completed :: json where
  "base_completed =
     JObj [(''status'', JStr ''completed''),
           (''result'', JObj [(''outputs'', JArr [JObj [(''url'', JStr ''https://x/base.jpg'')]])])]"

definition stylize_run :: "json \<Rightarrow> world" where
  "stylize_run base_status =
     quiet_world\<lparr>fs := (fs quiet_world)
                   (''token.json'' := Stored ''{}'' (Inr (token_document ''stale'')),
                    ''cat.png'' := Stored ''abc'' (Inl UnicodeDecodeError)),
                 replies := script
                   [ok_response (JObj [(''balance'', JNum 5)]),
                    ok_response (JObj [(''task_id'', JStr ''t1''),
                                       (''upload_url'', JStr ''https://storage/put''),
                                       (''upload_headers'', JObj [(''x-goog'', JStr ''1'')])]),
                    status_response 200,
                    status_response 200,
                    ok_response base_status,
                    ok_response (JObj [(''task_id'', JStr ''t2'')]),
                    ok_response (JObj [(''status'', JStr ''failed'')])]\<rparr>"



section \<open>The token store: loading and saving\<close>




text \<open>
  The clause of the load step catches nothing else: an exception of \<^verbatim>\<open>json.load\<close> other
  than those two, such as \<^verbatim>\<open>UnicodeDecodeError\<close> on a file of undecodable bytes or
  \<^verbatim>\<open>RecursionError\<close> on nesting that is too deep, leaves the load step as it was raised.
\<close>

lemma load_identity_token_uncaught:
  assumes "fs w (token_path self) = Stored bytes (Inl e)" and "\<not> load_catches e"
  shows "load_identity_token self w = Inl e"
  using assms by (simp add: load_identity_token_def)

text \<open>
  Claim C6. A non-empty token that the persistence step has written is what the load
  step reads back, into any client that uses the same token path.
\<close>

theorem save_then_load_round_trip:
  assumes "truthy (identity_token self)"
    and "save_identity_token self w = Inr w'"
    and "token_path other = token_path self"
  shows "load_identity_token other w' = Inr (other\<lparr>identity_token := identity_token self\<rparr>)"
  using assms
  by (auto simp: save_identity_token_def load_identity_token_def Let_def split: if_splits)

theorem save_then_load_round_trip_witness:
  "truthy (identity_token (new_client\<lparr>identity_token := JStr ''tok''\<rparr>))
   \<and> save_identity_token (new_client\<lparr>identity_token := JStr ''tok''\<rparr>) quiet_world
        = Inr (quiet_world\<lparr>fs := (fs quiet_world)(''token.json'' :=
                 Stored ''{}'' (Inr (JObj [(''identity_token'', JStr ''tok'')])))\<rparr>)
   \<and> token_path new_client = token_path (new_client\<lparr>identity_token := JStr ''tok''\<rparr>)
   \<and> load_identity_token new_client
        (quiet_world\<lparr>fs := (fs quiet_world)(''token.json'' :=
           Stored ''{}'' (Inr (JObj [(''identity_token'', JStr ''tok'')])))\<rparr>)
        = Inr (new_client\<lparr>identity_token := JStr ''tok''\<rparr>)"
proof -
  let ?c = "new_client\<lparr>identity_token := JStr ''tok''\<rparr>"
  let ?w' = "quiet_world\<lparr>fs := (fs quiet_world)(''token.json'' :=
               Stored ''{}'' (Inr (JObj [(''identity_token'', JStr ''tok'')])))\<rparr>"
  have t: "truthy (identity_token ?c)" by simp
  have s: "save_identity_token ?c quiet_world = Inr ?w'"
    by (simp add: save_identity_token_def new_client_def init_def quiet_world_def)
  have p: "token_path new_client = token_path ?c" by simp
  show ?thesis
    using t s p save_then_load_round_trip [OF t s p] by simp
qed

section \<open>The public workflows on a missing input\<close>

text \<open>
  Claim C10. When the input path does not exist, \<^verbatim>\<open>process\<close> and \<^verbatim>\<open>stylize\<close> raise
  \<^verbatim>\<open>FileNotFoundError\<close> at once: the client and the world (files, issued HTTP calls)
  are what they were, so nothing was loaded, sent or written.
\<close>

theorem missing_input_raises_first:
  assumes "\<not> exists_path w image_path"
  shows "process fuel self w image_path output_path verbose
           = (Some (Inl (FileNotFoundError image_path)), self, w)
       \<and> stylize fuel self w image_path style output_path verbose
           = (Some (Inl (FileNotFoundError image_path)), self, w)"
  using assms by (simp add: process_def stylize_def)

theorem missing_input_raises_first_witness:
  "\<not> exists_path quiet_world ''cat.png''
   \<and> process 3 new_client quiet_world ''cat.png'' None True
       = (Some (Inl (FileNotFoundError ''cat.png'')), new_client, quiet_world)
   \<and> stylize 3 new_client quiet_world ''cat.png'' ''toon'' None True
       = (Some (Inl (FileNotFoundError ''cat.png'')), new_client, quiet_world)"
proof -
  have h: "\<not> exists_path quiet_world ''cat.png''"
    by (simp add: exists_path_def quiet_world_def)
  show ?thesis
    using h missing_input_raises_first [OF h, of 3 new_client None True "''toon''"] by simp
qed

section \<open>Authentication: what \<^verbatim>\<open>_login\<close> sends\<close>

lemma get_user_profile_world:
  assumes "get_user_profile self w = (r, w')"
  shows "w' = (if truthy (identity_token self)
               then w\<lparr>sent := sent w @ [profile_request self]\<rparr> else w)"
  using assms
  by (auto simp: get_user_profile_def http_def split: if_splits outcome.splits option.splits sum.splits)

lemma get_setup_sent:
  assumes "get_setup self w = (r, self', w')"
  shows "sent w' = sent w @ [setup_request self w]"
  using assms
  by (auto simp: get_setup_def http_def save_identity_token_def Let_def
           split: if_splits outcome.splits option.splits sum.splits)
















text \<open>
  Claim C7. When the cache file holds a non-empty token and the profile probe made with
  it succeeds, \<^verbatim>\<open>_login\<close> returns normally after exactly one HTTP call, the probe; it
  performs no bootstrap and leaves every file as it was.
\<close>

theorem login_valid_cached_token:
  assumes "fs w (token_path self) = Stored bytes (Inr (JObj kvs))"
    and "map_of kvs ''identity_token'' = Some t"
    and "truthy t"
    and "get_user_profile (self\<lparr>identity_token := t\<rparr>) w = (Inr True, w1)"
  shows "login self w = (Inr (), self\<lparr>identity_token := t\<rparr>, w1)
       \<and> sent w1 = sent w @ [profile_request (self\<lparr>identity_token := t\<rparr>)]
       \<and> fs w1 = fs w"
proof -
  have l: "load_identity_token self w = Inr (self\<lparr>identity_token := t\<rparr>)"
    using assms(1,2) by (simp add: load_identity_token_def)
  have w1: "w1 = w\<lparr>sent := sent w @ [profile_request (self\<lparr>identity_token := t\<rparr>)]\<rparr>"
    using get_user_profile_world [OF assms(4)] assms(3) by simp
  show ?thesis
    using l assms(3,4) w1 by (simp add: login_def)
qed

theorem login_valid_cached_token_witness:
  "fs (cached_world [ok_response (JObj [(''balance'', JNum 5)])]) (token_path new_client)
     = Stored ''{}'' (Inr (JObj [(''identity_token'', JStr ''stale'')]))
   \<and> map_of [(''identity_token'', JStr ''stale'')] ''identity_token'' = Some (JStr ''stale'')
   \<and> truthy (JStr ''stale'')
   \<and> fst (get_user_profile (new_client\<lparr>identity_token := JStr ''stale''\<rparr>)
            (cached_world [ok_response (JObj [(''balance'', JNum 5)])])) = Inr True
   \<and> fst (login new_client (cached_world [ok_response (JObj [(''balance'', JNum 5)])])) = Inr ()
   \<and> map target (sent (snd (snd (login new_client
         (cached_world [ok_response (JObj [(''balance'', JNum 5)])]))))) = [UsersMe]"
proof -
  let ?w = "cached_world [ok_response (JObj [(''balance'', JNum 5)])]"
  let ?c = "new_client\<lparr>identity_token := JStr ''stale''\<rparr>"
  have f: "fs ?w (token_path new_client)
             = Stored ''{}'' (Inr (JObj [(''identity_token'', JStr ''stale'')]))"
    by (simp add: example_defs)
  have m: "map_of [(''identity_token'', JStr ''stale'')] ''identity_token'' = Some (JStr ''stale'')"
    by simp
  have t: "truthy (JStr ''stale'')" by simp
  have p': "fst (get_user_profile ?c ?w) = Inr True"
    by (simp add: get_user_profile_def http_def is_success_def example_defs)
  have p: "get_user_profile ?c ?w = (Inr True, snd (get_user_profile ?c ?w))"
    using p' by (metis prod.collapse)
  have s: "sent ?w = []" by (simp add: example_defs)
  note T = login_valid_cached_token [OF f m t p]
  show ?thesis
    using f m t p' s T by (simp add: profile_request_def)
qed







section \<open>Polling for the task status\<close>

lemma status_field_py_get:
  "status_field r = Some s \<Longrightarrow> \<exists>data. json_body r = Some data \<and> py_get data ''status'' JNull = Inr s"
  by (auto simp: status_field_def split: option.splits json.splits)

lemma py_get_status_field:
  "json_body r = Some data \<Longrightarrow> py_get data ''status'' JNull = Inr s \<Longrightarrow> status_field r = Some s"
  by (cases data) (auto simp: status_field_def)

lemma poll_continues:
  assumes "replies w (length (sent w)) = Response r" and "keeps_polling r"
  shows "poll_status_http (Suc fuel) self w task_id
           = poll_status_http fuel self (w\<lparr>sent := sent w @ [status_request self task_id]\<rparr>) task_id"
proof (cases "status_code r = 404")
  case True
  with assms(1) show ?thesis by (simp add: http_def)
next
  case False
  with assms(2) obtain s where s: "is_success r" "status_field r = Some s"
      "s \<notin> {JStr ''completed'', JStr ''failed'', JStr ''error''}"
    by (auto simp: keeps_polling_def split: option.splits)
  from status_field_py_get [OF s(2)] obtain data where
    d: "json_body r = Some data" "py_get data ''status'' JNull = Inr s" by blast
  from False assms(1) s(1,3) d show ?thesis by (simp add: http_def)
qed

lemma poll_returns_after_completed:
  assumes "poll_status_http fuel self w task_id = (Some (Inr v), w')"
  shows "\<exists>n r. n < fuel
           \<and> sent w' = sent w @ replicate (Suc n) (status_request self task_id)
           \<and> replies w (length (sent w) + n) = Response r
           \<and> is_success r \<and> status_field r = Some (JStr ''completed'')
           \<and> (\<forall>i<n. \<exists>r'. replies w (length (sent w) + i) = Response r' \<and> keeps_polling r')"
  using assms
proof (induction fuel arbitrary: w)
  case 0
  then show ?case by simp
next
  case (Suc fuel)
  let ?w1 = "w\<lparr>sent := sent w @ [status_request self task_id]\<rparr>"
  show ?case
  proof (cases "replies w (length (sent w))")
    case NoResponse
    with Suc.prems show ?thesis by (simp add: http_def)
  next
    case (Response r)
    show ?thesis
    proof (cases "keeps_polling r")
      case True
      from poll_continues [OF Response True] Suc.prems
      have "poll_status_http fuel self ?w1 task_id = (Some (Inr v), w')" by simp
      from Suc.IH [OF this] obtain n r' where n: "n < fuel"
        "sent w' = sent ?w1 @ replicate (Suc n) (status_request self task_id)"
        "replies ?w1 (length (sent ?w1) + n) = Response r'"
        "is_success r'" "status_field r' = Some (JStr ''completed'')"
        "\<forall>i<n. \<exists>r''. replies ?w1 (length (sent ?w1) + i) = Response r'' \<and> keeps_polling r''"
        by blast
      have a: "Suc n < Suc fuel" using n(1) by simp
      have b: "sent w' = sent w @ replicate (Suc (Suc n)) (status_request self task_id)"
        using n(2) by simp
      have c: "replies w (length (sent w) + Suc n) = Response r'" using n(3) by simp
      have d: "\<forall>i<Suc n. \<exists>r''. replies w (length (sent w) + i) = Response r'' \<and> keeps_polling r''"
      proof (intro allI impI)
        fix i assume "i < Suc n"
        show "\<exists>r''. replies w (length (sent w) + i) = Response r'' \<and> keeps_polling r''"
        proof (cases i)
          case 0
          with Response True show ?thesis by simp
        next
          case (Suc j)
          with \<open>i < Suc n\<close> have "j < n" by simp
          with n(6) Suc show ?thesis by simp
        qed
      qed
      from a b c n(4,5) d show ?thesis by blast
    next
      case False
      then have nf: "status_code r \<noteq> 404" by (simp add: keeps_polling_def)
      from Suc.prems Response nf have ok: "is_success r"
        by (auto simp: http_def split: if_splits)
      from Suc.prems Response nf ok obtain data where d: "json_body r = Some data"
        by (auto simp: http_def split: option.splits)
      from Suc.prems Response nf ok d obtain s where s: "py_get data ''status'' JNull = Inr s"
        by (auto simp: http_def split: sum.splits)
      have sf: "status_field r = Some s" using py_get_status_field [OF d s] .
      from False ok sf have terminal: "s \<in> {JStr ''completed'', JStr ''failed'', JStr ''error''}"
        by (simp add: keeps_polling_def)
      have "s = JStr ''completed''"
      proof (rule ccontr)
        assume "s \<noteq> JStr ''completed''"
        with terminal have "s = JStr ''failed'' \<or> s = JStr ''error''" by blast
        with Suc.prems Response nf ok d s show False
          by (cases "py_get data ''errors'' JNull") (auto simp: http_def)
      qed
      with Suc.prems Response nf ok d s
      have w': "w' = ?w1" by (simp add: http_def)
      have "sent w' = sent w @ replicate (Suc 0) (status_request self task_id)"
        using w' by simp
      moreover have "replies w (length (sent w) + 0) = Response r" using Response by simp
      moreover have "\<forall>i<(0::nat). \<exists>r'. replies w (length (sent w) + i) = Response r' \<and> keeps_polling r'"
        by simp
      ultimately show ?thesis
        using ok sf \<open>s = JStr ''completed''\<close> by (intro exI [of _ 0] exI [of _ r]) simp
    qed
  qed
qed

lemma polling_run_poll:
  "poll_status_http (Suc (Suc (Suc 0))) new_client polling_run (JStr ''t1'')
     = (Some (Inr (JStr ''https://x/base.jpg'')),
        polling_run\<lparr>sent := [status_request new_client (JStr ''t1''),
                              status_request new_client (JStr ''t1''),
                              status_request new_client (JStr ''t1'')]\<rparr>)"
  by (simp add: http_def is_success_def completed_url_def polling_run_def quiet_world_def
        script_def ok_response_def status_response_def)

text \<open>
  Claim C2. A response keeps the loop going when it is an HTTP 404, or a 2xx response
  whose decoded body is an object with a status other than \<^verbatim>\<open>"completed"\<close>, \<^verbatim>\<open>"failed"\<close>
  and \<^verbatim>\<open>"error"\<close> (any other string, and any other value). On such a response the loop
  neither returns nor raises: it goes on with the next iteration. Whenever the loop
  returns a value, the last response it read was a 2xx response with status
  \<^verbatim>\<open>"completed"\<close>, and every response before it was one that keeps the loop going.
\<close>

theorem poll_waits_for_terminal_status:
  "(replies w (length (sent w)) = Response r \<and> keeps_polling r \<longrightarrow>
      poll_status_http (Suc fuel) self w task_id
        = poll_status_http fuel self (w\<lparr>sent := sent w @ [status_request self task_id]\<rparr>)
            task_id)
   \<and> (poll_status_http budget self w task_id = (Some (Inr v), w') \<longrightarrow>
        (\<exists>n r. n < budget
           \<and> sent w' = sent w @ replicate (Suc n) (status_request self task_id)
           \<and> replies w (length (sent w) + n) = Response r
           \<and> is_success r \<and> status_field r = Some (JStr ''completed'')
           \<and> (\<forall>i<n. \<exists>r'. replies w (length (sent w) + i) = Response r'
                          \<and> keeps_polling r')))"
  using poll_continues poll_returns_after_completed by blast

theorem poll_waits_for_terminal_status_witness:
  "replies polling_run (length (sent polling_run))
     = Response \<lparr>status_code = 404, json_body = None, chunks = []\<rparr>
   \<and> keeps_polling \<lparr>status_code = 404, json_body = None, chunks = []\<rparr>
   \<and> keeps_polling \<lparr>status_code = 200,
         json_body = Some (JObj [(''status'', JStr ''processing'')]), chunks = []\<rparr>
   \<and> poll_status_http (Suc (Suc (Suc 0))) new_client polling_run (JStr ''t1'')
       = (Some (Inr (JStr ''https://x/base.jpg'')),
          polling_run\<lparr>sent := [status_request new_client (JStr ''t1''),
                                status_request new_client (JStr ''t1''),
                                status_request new_client (JStr ''t1'')]\<rparr>)
   \<and> poll_status_http (Suc (Suc 0)) new_client
         (polling_run\<lparr>sent := sent polling_run @ [status_request new_client (JStr ''t1'')]\<rparr>)
         (JStr ''t1'')
       = (Some (Inr (JStr ''https://x/base.jpg'')),
          polling_run\<lparr>sent := [status_request new_client (JStr ''t1''),
                                status_request new_client (JStr ''t1''),
                                status_request new_client (JStr ''t1'')]\<rparr>)"
proof -
  let ?r = "\<lparr>status_code = 404, json_body = None, chunks = []\<rparr>"
  have a: "replies polling_run (length (sent polling_run)) = Response ?r"
    by (simp add: polling_run_def quiet_world_def script_def status_response_def)
  have b: "keeps_polling ?r" by (simp add: keeps_polling_def)
  have c: "keeps_polling \<lparr>status_code = 200,
         json_body = Some (JObj [(''status'', JStr ''processing'')]), chunks = []\<rparr>"
    by (simp add: keeps_polling_def is_success_def status_field_def)
  note T = poll_waits_for_terminal_status
    [of polling_run ?r "Suc (Suc 0)" new_client "JStr ''t1''" "Suc (Suc (Suc 0))"
        "JStr ''https://x/base.jpg''"
        "polling_run\<lparr>sent := [status_request new_client (JStr ''t1''),
                              status_request new_client (JStr ''t1''),
                              status_request new_client (JStr ''t1'')]\<rparr>"]
  from T a b have d: "poll_status_http (Suc (Suc (Suc 0))) new_client polling_run (JStr ''t1'')
        = poll_status_http (Suc (Suc 0)) new_client
            (polling_run\<lparr>sent := sent polling_run @ [status_request new_client (JStr ''t1'')]\<rparr>)
            (JStr ''t1'')"
    by blast
  from a b c d polling_run_poll show ?thesis by simp
qed

section \<open>Task creation: no upload without the three fields\<close>

lemma create_image_task_missing_field:
  assumes "task_request_body w file_path feature = Inr body"
    and "replies w (length (sent w)) = Response r"
    and "is_success r"
    and "json_body r = Some (JObj kvs)"
    and "k \<in> {''task_id'', ''upload_url'', ''upload_headers''}"
    and "map_of kvs k = None"
  shows "create_image_task self w file_path feature
           = (Inl (ReminiError (MissingTaskFields (JObj kvs))),
              w\<lparr>sent := sent w @ [task_request self body]\<rparr>)"
  using assms by (auto simp: create_image_task_def http_def)

lemma create_image_task_put_needs_fields:
  assumes "req \<in> set (drop (length (sent w)) (sent (snd (create_image_task self w file_path feature))))"
    and "verb req = PUT"
  shows "\<exists>r kvs task_id upload_url upload_headers.
           replies w (length (sent w)) = Response r \<and> is_success r
           \<and> json_body r = Some (JObj kvs)
           \<and> map_of kvs ''task_id'' = Some task_id \<and> truthy task_id
           \<and> map_of kvs ''upload_url'' = Some upload_url \<and> truthy upload_url
           \<and> map_of kvs ''upload_headers'' = Some upload_headers \<and> truthy upload_headers"
proof (cases "task_request_body w file_path feature")
  case (Inl e)
  with assms(1) show ?thesis by (simp add: create_image_task_def)
next
  case (Inr body)
  let ?w1 = "w\<lparr>sent := sent w @ [task_request self body]\<rparr>"
  have post: "verb (task_request self body) = POST" by (simp add: task_request_def)
  show ?thesis
  proof (cases "replies w (length (sent w))")
    case NoResponse
    with Inr assms post show ?thesis by (auto simp: create_image_task_def http_def)
  next
    case (Response r)
    show ?thesis
    proof (cases "is_success r \<and> (\<exists>kvs. json_body r = Some (JObj kvs)
        \<and> truthy (case map_of kvs ''task_id'' of None \<Rightarrow> JNull | Some v \<Rightarrow> v)
        \<and> truthy (case map_of kvs ''upload_url'' of None \<Rightarrow> JNull | Some v \<Rightarrow> v)
        \<and> truthy (case map_of kvs ''upload_headers'' of None \<Rightarrow> JNull | Some v \<Rightarrow> v))")
      case True
      then obtain kvs where k: "is_success r" "json_body r = Some (JObj kvs)"
        "truthy (case map_of kvs ''task_id'' of None \<Rightarrow> JNull | Some v \<Rightarrow> v)"
        "truthy (case map_of kvs ''upload_url'' of None \<Rightarrow> JNull | Some v \<Rightarrow> v)"
        "truthy (case map_of kvs ''upload_headers'' of None \<Rightarrow> JNull | Some v \<Rightarrow> v)"
        by blast
      then show ?thesis using Response by (auto split: option.splits)
    next
      case False
      have "snd (create_image_task self w file_path feature) = ?w1"
      proof (cases "is_success r")
        case f: False
        with Inr Response show ?thesis by (simp add: create_image_task_def http_def)
      next
        case t: True
        show ?thesis
        proof (cases "json_body r")
          case None
          with Inr Response t show ?thesis by (simp add: create_image_task_def http_def)
        next
          case (Some data)
          show ?thesis
          proof (cases data)
            case (JObj kvs)
            with False t Some have
              "\<not> (truthy (case map_of kvs ''task_id'' of None \<Rightarrow> JNull | Some v \<Rightarrow> v)
                \<and> truthy (case map_of kvs ''upload_url'' of None \<Rightarrow> JNull | Some v \<Rightarrow> v)
                \<and> truthy (case map_of kvs ''upload_headers'' of None \<Rightarrow> JNull | Some v \<Rightarrow> v))"
              by blast
            with Inr Response t Some JObj show ?thesis
              by (auto simp: create_image_task_def http_def)
          qed (use Inr Response t Some in \<open>simp_all add: create_image_task_def http_def\<close>)
        qed
      qed
      with assms post show ?thesis by auto
    qed
  qed
qed

lemma cat_request_body:
  "task_request_body upload_run ''cat.png'' enhance_feature
     = Inr (JObj [(''image_content_type'', JStr ''image/jpeg''),
                  (''image_md5'', JStr ''md5''),
                  (''feature'', enhance_feature),
                  (''metadata'', JObj [(''size'', JNum 3)]),
                  (''options'', JObj [(''high_quality_output'', JBool False),
                                      (''save_input'', JBool True)])])"
  "task_request_body short_reply_run ''cat.png'' enhance_feature
     = Inr (JObj [(''image_content_type'', JStr ''image/jpeg''),
                  (''image_md5'', JStr ''md5''),
                  (''feature'', enhance_feature),
                  (''metadata'', JObj [(''size'', JNum 3)]),
                  (''options'', JObj [(''high_quality_output'', JBool False),
                                      (''save_input'', JBool True)])])"
  by (simp_all add: task_request_body_def calculate_md5_base64_def get_image_metadata_def
        upload_run_def short_reply_run_def quiet_world_def)

lemma upload_run_facts:
  "fs upload_run ''cat.png'' = Stored ''abc'' (Inl UnicodeDecodeError)"
  "sent upload_run = []"
  "replies upload_run 0
     = Response \<lparr>status_code = 200,
         json_body = Some (JObj [(''task_id'', JStr ''t1''),
                                 (''upload_url'', JStr ''https://storage/put''),
                                 (''upload_headers'', JObj [(''x-goog'', JStr ''1'')])]),
         chunks = []\<rparr>"
  "replies upload_run (Suc 0) = Response \<lparr>status_code = 200, json_body = None, chunks = []\<rparr>"
  by (simp_all add: upload_run_def quiet_world_def script_def ok_response_def
        status_response_def)

lemma new_client_agent:
  "map_of (android_headers new_client) ''user-agent'' = Some (JStr ''okhttp/4.12.0'')"
  by (simp add: new_client_def init_def create_android_headers_def)

lemma upload_run_create:
  "fst (create_image_task new_client upload_run ''cat.png'' enhance_feature) = Inr (JStr ''t1'')
   \<and> map verb (sent (snd (create_image_task new_client upload_run ''cat.png'' enhance_feature)))
       = [POST, PUT]"
  by (simp add: create_image_task_def upload_file_to_gcs_def cat_request_body http_def
        is_success_def task_request_def upload_request_def upload_run_facts new_client_agent)

text \<open>
  Claim C4. When the task-creation response is a 2xx response whose decoded body is an
  object in which \<^verbatim>\<open>task_id\<close>, \<^verbatim>\<open>upload_url\<close> or \<^verbatim>\<open>upload_headers\<close> is missing,
  \<^verbatim>\<open>_create_image_task\<close> raises \<^verbatim>\<open>ReminiError\<close> with the missing-fields message, and the
  only HTTP call it has issued is the creation POST: the upload step was not invoked.
  Conversely, whatever the response, a PUT among the calls it issues means that the
  creation response was 2xx and carried all three fields, each non-empty.
\<close>

theorem upload_only_after_all_fields:
  "(task_request_body w file_path feature = Inr body
      \<and> replies w (length (sent w)) = Response r \<and> is_success r
      \<and> json_body r = Some (JObj kvs)
      \<and> k \<in> {''task_id'', ''upload_url'', ''upload_headers''} \<and> map_of kvs k = None
    \<longrightarrow> create_image_task self w file_path feature
          = (Inl (ReminiError (MissingTaskFields (JObj kvs))),
             w\<lparr>sent := sent w @ [task_request self body]\<rparr>))
   \<and> (req \<in> set (drop (length (sent w))
                    (sent (snd (create_image_task self w file_path feature))))
      \<and> verb req = PUT
    \<longrightarrow> (\<exists>r kvs task_id upload_url upload_headers.
           replies w (length (sent w)) = Response r \<and> is_success r
           \<and> json_body r = Some (JObj kvs)
           \<and> map_of kvs ''task_id'' = Some task_id \<and> truthy task_id
           \<and> map_of kvs ''upload_url'' = Some upload_url \<and> truthy upload_url
           \<and> map_of kvs ''upload_headers'' = Some upload_headers \<and> truthy upload_headers))"
proof (intro conjI impI)
  assume h: "task_request_body w file_path feature = Inr body
      \<and> replies w (length (sent w)) = Response r \<and> is_success r
      \<and> json_body r = Some (JObj kvs)
      \<and> k \<in> {''task_id'', ''upload_url'', ''upload_headers''} \<and> map_of kvs k = None"
  note h2 = h [THEN conjunct2]
  note h3 = h2 [THEN conjunct2]
  note h4 = h3 [THEN conjunct2]
  note h5 = h4 [THEN conjunct2]
  show "create_image_task self w file_path feature
          = (Inl (ReminiError (MissingTaskFields (JObj kvs))),
             w\<lparr>sent := sent w @ [task_request self body]\<rparr>)"
    by (rule create_image_task_missing_field
          [OF h [THEN conjunct1] h2 [THEN conjunct1] h3 [THEN conjunct1] h4 [THEN conjunct1]
              h5 [THEN conjunct1] h5 [THEN conjunct2]])
next
  assume h: "req \<in> set (drop (length (sent w))
                    (sent (snd (create_image_task self w file_path feature))))
      \<and> verb req = PUT"
  show "\<exists>r kvs task_id upload_url upload_headers.
           replies w (length (sent w)) = Response r \<and> is_success r
           \<and> json_body r = Some (JObj kvs)
           \<and> map_of kvs ''task_id'' = Some task_id \<and> truthy task_id
           \<and> map_of kvs ''upload_url'' = Some upload_url \<and> truthy upload_url
           \<and> map_of kvs ''upload_headers'' = Some upload_headers \<and> truthy upload_headers"
    by (rule create_image_task_put_needs_fields [OF h [THEN conjunct1] h [THEN conjunct2]])
qed

theorem upload_only_after_all_fields_witness:
  "replies short_reply_run (length (sent short_reply_run))
     = Response \<lparr>status_code = 200,
         json_body = Some (JObj [(''task_id'', JStr ''t1''),
                                 (''upload_headers'', JObj [(''x-goog'', JStr ''1'')])]),
         chunks = []\<rparr>
   \<and> map_of [(''task_id'', JStr ''t1''), (''upload_headers'', JObj [(''x-goog'', JStr ''1'')])]
        ''upload_url'' = None
   \<and> fst (create_image_task new_client short_reply_run ''cat.png'' enhance_feature)
       = Inl (ReminiError (MissingTaskFields
           (JObj [(''task_id'', JStr ''t1''),
                  (''upload_headers'', JObj [(''x-goog'', JStr ''1'')])])))
   \<and> map verb (sent (snd (create_image_task new_client short_reply_run ''cat.png''
         enhance_feature))) = [POST]
   \<and> map verb (sent (snd (create_image_task new_client upload_run ''cat.png''
         enhance_feature))) = [POST, PUT]
   \<and> map_of [(''task_id'', JStr ''t1''), (''upload_url'', JStr ''https://storage/put''),
              (''upload_headers'', JObj [(''x-goog'', JStr ''1'')])] ''upload_url''
       = Some (JStr ''https://storage/put'')"
proof -
  let ?kvs = "[(''task_id'', JStr ''t1''), (''upload_headers'', JObj [(''x-goog'', JStr ''1'')])]"
  let ?r = "\<lparr>status_code = 200, json_body = Some (JObj ?kvs), chunks = []\<rparr>"
  have a: "replies short_reply_run (length (sent short_reply_run)) = Response ?r"
    by (simp add: short_reply_run_def quiet_world_def script_def ok_response_def)
  have b: "is_success ?r" by (simp add: is_success_def)
  have c: "json_body ?r = Some (JObj ?kvs)" by simp
  have d: "''upload_url'' \<in> {''task_id'', ''upload_url'', ''upload_headers''}" by simp
  have e: "map_of ?kvs ''upload_url'' = None" by simp
  have s0: "sent short_reply_run = []" by (simp add: short_reply_run_def quiet_world_def)
  let ?body = "JObj [(''image_content_type'', JStr ''image/jpeg''),
                     (''image_md5'', JStr ''md5''),
                     (''feature'', enhance_feature),
                     (''metadata'', JObj [(''size'', JNum 3)]),
                     (''options'', JObj [(''high_quality_output'', JBool False),
                                         (''save_input'', JBool True)])]"
  have hyp: "task_request_body short_reply_run ''cat.png'' enhance_feature = Inr ?body
      \<and> replies short_reply_run (length (sent short_reply_run)) = Response ?r \<and> is_success ?r
      \<and> json_body ?r = Some (JObj ?kvs)
      \<and> ''upload_url'' \<in> {''task_id'', ''upload_url'', ''upload_headers''}
      \<and> map_of ?kvs ''upload_url'' = None"
    by (intro conjI cat_request_body(2) a b c d e)
  note T = upload_only_after_all_fields
    [of short_reply_run "''cat.png''" enhance_feature ?body ?r ?kvs "''upload_url''" new_client]
  note f = T [THEN conjunct1, THEN mp, OF hyp]
  have g: "fst (create_image_task new_client short_reply_run ''cat.png'' enhance_feature)
             = Inl (ReminiError (MissingTaskFields (JObj ?kvs)))"
    using f by simp
  have h: "map verb (sent (snd (create_image_task new_client short_reply_run ''cat.png''
             enhance_feature))) = [POST]"
    using f s0 by (simp add: task_request_def)
  from a e g h upload_run_create show ?thesis by simp
qed

section \<open>The default destination path\<close>

lemma drop_after_last:
  "drop (length p - length (takeWhile (\<lambda>x. x \<noteq> c) (rev p))) p
     = rev (takeWhile (\<lambda>x. x \<noteq> c) (rev p))"
proof -
  let ?k = "length (takeWhile (\<lambda>x. x \<noteq> c) (rev p))"
  have "?k \<le> length p" using length_takeWhile_le [of _ "rev p"] by simp
  have "rev (take ?k (rev p)) = drop (length p - ?k) p"
    by (simp add: rev_take)
  moreover have "take ?k (rev p) = takeWhile (\<lambda>x. x \<noteq> c) (rev p)"
    by (metis takeWhile_eq_take)
  ultimately show ?thesis by simp
qed

lemma basename_eq: "basename p = rev (takeWhile (\<lambda>x. x \<noteq> CHR ''/'') (rev p))"
proof (cases "CHR ''/'' \<in> set p")
  case True
  let ?k = "length (takeWhile (\<lambda>x. x \<noteq> CHR ''/'') (rev p))"
  have "?k \<le> length p" using length_takeWhile_le [of _ "rev p"] by simp
  then have "nat (rfind (CHR ''/'') p + 1) = length p - ?k"
    using True by (simp add: rfind_def)
  then show ?thesis using drop_after_last [of p "CHR ''/''"] by (simp add: basename_def)
next
  case False
  then have tw: "takeWhile (\<lambda>x. x \<noteq> CHR ''/'') (rev p) = rev p"
    by (auto simp: takeWhile_eq_all_conv)
  show ?thesis using False by (simp add: basename_def rfind_def tw)
qed

lemma basename_no_separator: "CHR ''/'' \<notin> set (basename p)"
proof -
  have "\<forall>x \<in> set (takeWhile (\<lambda>x. x \<noteq> CHR ''/'') (rev p)). x \<noteq> CHR ''/''"
    using set_takeWhileD by fastforce
  then show ?thesis by (auto simp: basename_eq)
qed

lemma splitext_append: "splitext p = (name, ext) \<Longrightarrow> name @ ext = p"
  by (auto simp: splitext_def Let_def split: if_splits)

lemma cat_splitext: "splitext (basename ''photos/cat.png'') = (''cat'', ''.png'')"
  by (simp add: splitext_def basename_def rfind_def)

lemma download_run_facts:
  "replies download_run 0 = Response \<lparr>status_code = 200, json_body = None, chunks = [''ab'', ''cd'']\<rparr>"
  "sent download_run = []"
  "writable download_run = (\<lambda>p. True)"
  "fs download_run = (\<lambda>p. Absent)"
  "strftime_now download_run = ''20240101_120000''"
  by (simp_all add: download_run_def quiet_world_def script_def)

lemma download_run_download:
  "fs (snd (download_file new_client download_run (JStr ''https://x/out.jpg'') path))
     = (\<lambda>p. Absent)(path := Stored ''abcd'' (Inl JSONDecodeError))"
  by (simp add: download_file_def http_def is_success_def new_client_agent download_run_facts)

text \<open>
  Claim C8, as amended. When the caller leaves the output path unspecified (\<^verbatim>\<open>None\<close> or
  empty) and a final URL was produced, the artifact is downloaded to
  \<^verbatim>\<open>{name}_remini_{timestamp}{ext}\<close>, where \<^verbatim>\<open>name\<close> and \<^verbatim>\<open>ext\<close> are the two parts into
  which \<^verbatim>\<open>os.path.splitext\<close> splits the base name of the input image path. The path has
  no directory part (a separator could only come from the timestamp), so it names a file
  of the current working directory.
\<close>

theorem default_output_path:
  assumes "output_path = None \<or> output_path = Some []"
    and "truthy final_url"
    and "splitext (basename image_path) = (name, ext)"
  shows "process_common self w image_path output_path verbose final_url
           = download_file self w final_url (name @ ''_remini_'' @ strftime_now w @ ext)
       \<and> name @ ext = basename image_path
       \<and> (CHR ''/'' \<in> set (name @ ''_remini_'' @ strftime_now w @ ext)) = (CHR ''/'' \<in> set (strftime_now w))"
proof -
  have a: "process_common self w image_path output_path verbose final_url
           = download_file self w final_url (name @ ''_remini_'' @ strftime_now w @ ext)"
    using assms by (auto simp: process_common_def Let_def)
  have b: "name @ ext = basename image_path"
    using splitext_append [OF assms(3)] .
  have "CHR ''/'' \<notin> set (name @ ext)"
    using b basename_no_separator by simp
  then have c: "(CHR ''/'' \<in> set (name @ ''_remini_'' @ strftime_now w @ ext)) = (CHR ''/'' \<in> set (strftime_now w))"
    by auto
  from a b c show ?thesis by blast
qed

theorem default_output_path_witness:
  "truthy (JStr ''https://x/out.jpg'')
   \<and> splitext (basename ''photos/cat.png'') = (''cat'', ''.png'')
   \<and> fs (snd (process_common new_client download_run ''photos/cat.png'' None True
               (JStr ''https://x/out.jpg''))) ''cat_remini_20240101_120000.png''
       = Stored ''abcd'' (Inl JSONDecodeError)
   \<and> CHR ''/'' \<notin> set (''cat'' @ ''_remini_'' @ strftime_now download_run @ ''.png'')"
proof -
  have t: "truthy (JStr ''https://x/out.jpg'')" by simp
  have n: "(None :: string option) = None \<or> (None :: string option) = Some []" by simp
  note T = default_output_path [OF n t cat_splitext, of new_client download_run True]
  from T t cat_splitext show ?thesis
    by (simp add: download_run_download download_run_facts)
qed

text \<open>
  Claim C8 as stated fails: for the input \<^verbatim>\<open>photos/cat.png\<close> at the clock reading
  \<^verbatim>\<open>20240101_120000\<close> nothing is written to \<^verbatim>\<open>cat_enhanced_20240101_120000.png\<close>; the
  artifact goes to \<^verbatim>\<open>cat_remini_20240101_120000.png\<close>.
\<close>

theorem enhanced_suffix_counterexample:
  "fs (snd (process_common new_client download_run ''photos/cat.png'' None True
             (JStr ''https://x/out.jpg''))) ''cat_enhanced_20240101_120000.png'' = Absent
   \<and> fs (snd (process_common new_client download_run ''photos/cat.png'' None True
             (JStr ''https://x/out.jpg''))) ''cat_remini_20240101_120000.png''
       = Stored ''abcd'' (Inl JSONDecodeError)"
  by (simp add: process_common_def cat_splitext download_run_download download_run_facts)

section \<open>Stylization: reprocessing the base task\<close>

lemma no_reprocess_since_iff:
  "no_reprocess_since w w'
     \<longleftrightarrow> (\<exists>rs. sent w' = sent w @ rs \<and> list_all (\<lambda>r. \<not> is_reprocess r) rs)"
proof
  assume "no_reprocess_since w w'"
  then have "sent w' = sent w @ drop (length (sent w)) (sent w')
      \<and> list_all (\<lambda>r. \<not> is_reprocess r) (drop (length (sent w)) (sent w'))"
    unfolding no_reprocess_since_def by (metis append_take_drop_id)
  then show "\<exists>rs. sent w' = sent w @ rs \<and> list_all (\<lambda>r. \<not> is_reprocess r) rs" by blast
next
  assume "\<exists>rs. sent w' = sent w @ rs \<and> list_all (\<lambda>r. \<not> is_reprocess r) rs"
  then show "no_reprocess_since w w'" by (auto simp: no_reprocess_since_def)
qed

lemma and_then_eq_Inr: "and_then m f = Inr y \<longleftrightarrow> (\<exists>x. m = Inr x \<and> f x = Inr y)"
  by (cases m) auto

lemma completed_url_truthy_or_none:
  assumes "completed_url data = Inr url"
  shows "truthy url \<or> url = JNull"
proof -
  from assms obtain result outputs where
    o: "(case outputs of
           JArr (first # others) \<Rightarrow>
             and_then (py_get first ''url'' JNull)
               (\<lambda>url. if truthy url then Inr url else Inr JNull)
         | _ \<Rightarrow> Inr JNull) = Inr url"
    unfolding completed_url_def and_then_eq_Inr by blast
  show ?thesis
  proof (cases outputs)
    case (JArr xs)
    show ?thesis
    proof (cases xs)
      case Nil
      with o JArr show ?thesis by simp
    next
      case (Cons first others)
      with o JArr obtain u where "(if truthy u then Inr u else Inr JNull) = (Inr url :: error + json)"
        by (auto simp: and_then_eq_Inr)
      then show ?thesis by (cases "truthy u") auto
    qed
  qed (use o in simp_all)
qed

lemma poll_extends:
  assumes "poll_status_http fuel self w task_id = (res, w')"
  shows "\<exists>rs. sent w' = sent w @ rs \<and> list_all (\<lambda>r. \<not> is_reprocess r) rs"
  using assms
proof (induction fuel arbitrary: w)
  case 0
  then show ?case by simp
next
  case (Suc fuel)
  let ?rq = "status_request self task_id"
  let ?w1 = "w\<lparr>sent := sent w @ [?rq]\<rparr>"
  have nr: "\<not> is_reprocess ?rq" by (simp add: is_reprocess_def status_request_def)
  show ?case
  proof (cases "poll_status_http (Suc fuel) self w task_id = poll_status_http fuel self ?w1 task_id")
    case True
    with Suc.prems have "poll_status_http fuel self ?w1 task_id = (res, w')" by simp
    from Suc.IH [OF this] obtain rs where
      "sent w' = sent ?w1 @ rs" "list_all (\<lambda>r. \<not> is_reprocess r) rs" by blast
    with nr have "sent w' = sent w @ (?rq # rs) \<and> list_all (\<lambda>r. \<not> is_reprocess r) (?rq # rs)"
      by simp
    then show ?thesis by blast
  next
    case False
    with Suc.prems have "w' = ?w1"
      by (auto simp: http_def split: outcome.splits if_splits option.splits sum.splits)
    with nr have "sent w' = sent w @ [?rq] \<and> list_all (\<lambda>r. \<not> is_reprocess r) [?rq]" by simp
    then show ?thesis by blast
  qed
qed

lemma poll_url_or_none:
  assumes "poll_status_http fuel self w task_id = (Some (Inr url), w')"
  shows "truthy url \<or> url = JNull"
  using assms
proof (induction fuel arbitrary: w)
  case 0
  then show ?case by simp
next
  case (Suc fuel)
  let ?w1 = "w\<lparr>sent := sent w @ [status_request self task_id]\<rparr>"
  show ?case
  proof (cases "poll_status_http (Suc fuel) self w task_id = poll_status_http fuel self ?w1 task_id")
    case True
    with Suc show ?thesis by simp
  next
    case False
    with Suc.prems obtain data where "completed_url data = Inr url"
      by (auto simp: http_def and_then_eq_Inr
               split: outcome.splits if_splits option.splits sum.splits)
    then show ?thesis by (rule completed_url_truthy_or_none)
  qed
qed

lemma no_reprocess_refl: "no_reprocess_since w w"
  by (simp add: no_reprocess_since_iff)

lemma no_reprocess_trans:
  "no_reprocess_since w w' \<Longrightarrow> no_reprocess_since w' w'' \<Longrightarrow> no_reprocess_since w w''"
  by (auto simp: no_reprocess_since_iff)

lemma no_reprocess_step:
  "\<not> is_reprocess rq \<Longrightarrow> no_reprocess_since w (w\<lparr>sent := sent w @ [rq]\<rparr>)"
  by (simp add: no_reprocess_since_iff)

lemma poll_no_reprocess:
  "poll_status_http fuel self w task_id = (res, w') \<Longrightarrow> no_reprocess_since w w'"
  using poll_extends by (simp add: no_reprocess_since_iff)

lemma profile_no_reprocess:
  assumes "get_user_profile self w = (res, w')"
  shows "no_reprocess_since w w'"
proof -
  have "\<not> is_reprocess (profile_request self)"
    by (simp add: is_reprocess_def profile_request_def)
  from no_reprocess_step [OF this] get_user_profile_world [OF assms] show ?thesis
    by (simp add: no_reprocess_refl)
qed

lemma setup_no_reprocess:
  assumes "get_setup self w = (res, self', w')"
  shows "no_reprocess_since w w'"
proof -
  have "\<not> is_reprocess (setup_request self w)"
    by (simp add: is_reprocess_def setup_request_def)
  with get_setup_sent [OF assms] show ?thesis
    by (simp add: no_reprocess_since_iff)
qed

lemma login_no_reprocess:
  assumes "login self w = (res, self', w')"
  shows "no_reprocess_since w w'"
proof (cases "load_identity_token self w")
  case (Inl e)
  with assms show ?thesis by (simp add: login_def no_reprocess_refl)
next
  case (Inr self1)
  obtain p w1 where p: "get_user_profile self1 w = (p, w1)"
    by (cases "get_user_profile self1 w")
  have a: "no_reprocess_since w w1" using profile_no_reprocess [OF p] .
  have p': "(if truthy (identity_token self1) then get_user_profile self1 w else (Inr False, w))
              = (p, w1)"
    using p by (auto simp: get_user_profile_def)
  show ?thesis
  proof (cases p)
    case (Inl e)
    with assms Inr p' a show ?thesis by (simp add: login_def)
  next
    case ok: (Inr b)
    show ?thesis
    proof (cases b)
      case True
      with assms Inr p' ok a show ?thesis by (simp add: login_def)
    next
      case False
      obtain s self2 w2 where g: "get_setup self1 w1 = (s, self2, w2)"
        by (cases "get_setup self1 w1")
      have b: "no_reprocess_since w w2"
        using no_reprocess_trans [OF a setup_no_reprocess [OF g]] .
      obtain q w3 where q: "get_user_profile self2 w2 = (q, w3)"
        by (cases "get_user_profile self2 w2")
      have c: "no_reprocess_since w w3"
        using no_reprocess_trans [OF b profile_no_reprocess [OF q]] .
      from assms Inr p' ok False g q b c show ?thesis
        by (auto simp: login_def split: sum.splits bool.splits)
    qed
  qed
qed

lemma upload_no_reprocess:
  assumes "upload_file_to_gcs self w upload_url file_path additional_headers = (res, w')"
  shows "no_reprocess_since w w'"
  using assms
  by (auto simp: upload_file_to_gcs_def http_def no_reprocess_since_iff is_reprocess_def
           upload_request_def
           split: file_state.splits json.splits option.splits outcome.splits if_splits)

lemma create_no_reprocess:
  assumes "create_image_task self w file_path feature = (res, w')"
  shows "no_reprocess_since w w'"
proof (cases "task_request_body w file_path feature")
  case (Inl e)
  with assms show ?thesis by (simp add: create_image_task_def no_reprocess_refl)
next
  case (Inr body)
  let ?w1 = "w\<lparr>sent := sent w @ [task_request self body]\<rparr>"
  have "\<not> is_reprocess (task_request self body)"
    by (simp add: is_reprocess_def task_request_def)
  then have a: "no_reprocess_since w ?w1" by (rule no_reprocess_step)
  show ?thesis
  proof (cases "w' = ?w1")
    case True
    with a show ?thesis by simp
  next
    case False
    with assms Inr obtain u f h r where "upload_file_to_gcs self ?w1 u file_path h = (r, w')"
      by (auto simp: create_image_task_def http_def
               split: outcome.splits if_splits option.splits sum.splits prod.splits)
    from no_reprocess_trans [OF a upload_no_reprocess [OF this]] show ?thesis .
  qed
qed

lemma ping_no_reprocess:
  assumes "ping_for_processing self w task_id = (res, w')"
  shows "no_reprocess_since w w'"
  using assms
  by (auto simp: ping_for_processing_def http_def no_reprocess_since_iff is_reprocess_def
           split: outcome.splits if_splits)

lemma reprocess_sent:
  assumes "reprocess_image_task self w base feature = (res, w')"
  shows "sent w' = sent w @ [reprocess_request self base feature]"
  using assms
  by (auto simp: reprocess_image_task_def http_def
           split: outcome.splits if_splits option.splits sum.splits)

lemma poll_appends:
  "poll_status_http fuel self w task_id = (res, w') \<Longrightarrow> \<exists>rs. sent w' = sent w @ rs"
  using poll_extends by blast

lemma process_common_appends:
  assumes "process_common self w image_path output_path verbose final_url = (res, w')"
  shows "\<exists>rs. sent w' = sent w @ rs"
  using assms
  by (auto simp: process_common_def download_file_def http_def Let_def
           split: if_splits option.splits outcome.splits)

lemma stylize_after_base:
  assumes "exists_path w image_path"
    and "login self w = (Inr (), self1, w1)"
    and "create_image_task self1 w1 image_path enhance_feature = (Inr base_task_id, w2)"
    and "ping_for_processing self1 w2 base_task_id = (Inr (), w3)"
    and "poll_status_http fuel self1 w3 base_task_id = (Some (Inr base_task_url), w4)"
    and "truthy base_task_url"
  shows "\<exists>rest. sent (snd (snd (stylize fuel self w image_path style output_path verbose)))
           = sent w4 @ reprocess_request self1 base_task_id (style_feature style) # rest"
proof -
  let ?rq = "reprocess_request self1 base_task_id (style_feature style)"
  obtain r w5 where r: "reprocess_image_task self1 w4 base_task_id (style_feature style) = (r, w5)"
    by (cases "reprocess_image_task self1 w4 base_task_id (style_feature style)")
  have s5: "sent w5 = sent w4 @ [?rq]" using reprocess_sent [OF r] .
  show ?thesis
  proof (cases r)
    case (Inl e)
    with assms r have "snd (snd (stylize fuel self w image_path style output_path verbose)) = w5"
      by (simp add: stylize_def)
    with s5 show ?thesis by simp
  next
    case (Inr reprocess_task_id)
    obtain q w6 where q: "poll_status_http fuel self1 w5 reprocess_task_id = (q, w6)"
      by (cases "poll_status_http fuel self1 w5 reprocess_task_id")
    from poll_appends [OF q] obtain rs where s6: "sent w6 = sent w5 @ rs" by blast
    show ?thesis
    proof (cases "\<exists>final_url. q = Some (Inr final_url)")
      case False
      with assms r Inr q
      have "snd (snd (stylize fuel self w image_path style output_path verbose)) = w6"
        by (auto simp: stylize_def split: option.splits sum.splits)
      with s5 s6 show ?thesis by simp
    next
      case True
      then obtain final_url where f: "q = Some (Inr final_url)" by blast
      obtain x w7 where
        x: "process_common self1 w6 image_path output_path verbose final_url = (x, w7)"
        by (cases "process_common self1 w6 image_path output_path verbose final_url")
      from process_common_appends [OF x] obtain rs' where s7: "sent w7 = sent w6 @ rs'"
        by blast
      from assms r Inr q f x
      have "snd (snd (stylize fuel self w image_path style output_path verbose)) = w7"
        by (simp add: stylize_def)
      with s5 s6 s7 show ?thesis by simp
    qed
  qed
qed

text \<open>
  Claim C5. Take a run of \<^verbatim>\<open>stylize\<close> in which the input exists, the login, the creation
  of the base task and the processing trigger succeed, and the base poll returns. Up to
  that point no reprocess call has been issued. If the poll returned \<^verbatim>\<open>None\<close>, \<^verbatim>\<open>stylize\<close>
  raises \<^verbatim>\<open>ReminiError\<close> with the base-task message and issues no further call, so it
  never invokes the reprocess operation. Otherwise the poll returned an output URL, and
  the very next call is the reprocess POST on the base task id, whose payload is the
  stylization feature with exactly the caller's style id as its one pipeline.
\<close>

theorem stylize_reprocesses_with_style:
  assumes "exists_path w image_path"
    and "login self w = (Inr (), self1, w1)"
    and "create_image_task self1 w1 image_path enhance_feature = (Inr base_task_id, w2)"
    and "ping_for_processing self1 w2 base_task_id = (Inr (), w3)"
    and "poll_status_http fuel self1 w3 base_task_id = (Some (Inr base_task_url), w4)"
  shows "(if base_task_url = JNull
          then stylize fuel self w image_path style output_path verbose
                 = (Some (Inl (ReminiError BaseTaskIncomplete)), self1, w4)
          else (\<exists>rest. sent (snd (snd (stylize fuel self w image_path style output_path verbose)))
                  = sent w4 @ reprocess_request self1 base_task_id (style_feature style) # rest))
       \<and> no_reprocess_since w w4
       \<and> verb (reprocess_request self1 base_task_id (style_feature style)) = POST
       \<and> target (reprocess_request self1 base_task_id (style_feature style))
           = TaskReprocess base_task_id
       \<and> payload (reprocess_request self1 base_task_id (style_feature style))
           = JsonBody (JObj [(''feature'',
               JObj [(''type'', JStr ''stylization-v2''),
                     (''pipelines'', JArr [JObj [(''id'', JStr style)]])])])"
proof -
  have a: "if base_task_url = JNull
          then stylize fuel self w image_path style output_path verbose
                 = (Some (Inl (ReminiError BaseTaskIncomplete)), self1, w4)
          else (\<exists>rest. sent (snd (snd (stylize fuel self w image_path style output_path verbose)))
                  = sent w4 @ reprocess_request self1 base_task_id (style_feature style) # rest)"
  proof (cases "base_task_url = JNull")
    case True
    with assms show ?thesis by (simp add: stylize_def)
  next
    case False
    with poll_url_or_none [OF assms(5)] have "truthy base_task_url" by simp
    from stylize_after_base [OF assms this] False show ?thesis by simp
  qed
  have b: "no_reprocess_since w w4"
    using no_reprocess_trans [OF no_reprocess_trans [OF no_reprocess_trans
            [OF login_no_reprocess [OF assms(2)] create_no_reprocess [OF assms(3)]]
            ping_no_reprocess [OF assms(4)]] poll_no_reprocess [OF assms(5)]] .
  have c: "verb (reprocess_request self1 base_task_id (style_feature style)) = POST
       \<and> target (reprocess_request self1 base_task_id (style_feature style))
           = TaskReprocess base_task_id
       \<and> payload (reprocess_request self1 base_task_id (style_feature style))
           = JsonBody (JObj [(''feature'',
               JObj [(''type'', JStr ''stylization-v2''),
                     (''pipelines'', JArr [JObj [(''id'', JStr style)]])])])"
    by (simp add: reprocess_request_def style_feature_def)
  from a b c show ?thesis by (intro conjI) simp_all
qed

lemma stylize_run_facts:
  "fs (stylize_run b) ''token.json'' = Stored ''{}'' (Inr (JObj [(''identity_token'', JStr ''stale'')]))"
  "fs (stylize_run b) ''cat.png'' = Stored ''abc'' (Inl UnicodeDecodeError)"
  "sent (stylize_run b) = []"
  "replies (stylize_run b) 0 = Response \<lparr>status_code = 200, json_body = Some (JObj [(''balance'', JNum 5)]), chunks = []\<rparr>"
  "replies (stylize_run b) (Suc 0)
     = Response \<lparr>status_code = 200,
         json_body = Some (JObj [(''task_id'', JStr ''t1''),
                                 (''upload_url'', JStr ''https://storage/put''),
                                 (''upload_headers'', JObj [(''x-goog'', JStr ''1'')])]),
         chunks = []\<rparr>"
  "replies (stylize_run b) (Suc (Suc 0)) = Response \<lparr>status_code = 200, json_body = None, chunks = []\<rparr>"
  "replies (stylize_run b) (Suc (Suc (Suc 0))) = Response \<lparr>status_code = 200, json_body = None, chunks = []\<rparr>"
  "replies (stylize_run b) (Suc (Suc (Suc (Suc 0)))) = Response \<lparr>status_code = 200, json_body = Some b, chunks = []\<rparr>"
  "md5_base64 (stylize_run b) = (\<lambda>b. ''md5'')"
  "guess_type (stylize_run b) = (\<lambda>p. None)"
  "image_size (stylize_run b) = (\<lambda>b. None)"
  by (simp_all add: stylize_run_def quiet_world_def script_def ok_response_def
        status_response_def token_document_def)

lemma new_client_fields:
  "token_path new_client = ''token.json''"
  "token_path (new_client\<lparr>identity_token := t\<rparr>) = ''token.json''"
  by (simp_all add: new_client_def init_def)

lemma stylize_run_login:
  "login new_client (stylize_run b)
     = (Inr (), new_client\<lparr>identity_token := JStr ''stale''\<rparr>,
        stylize_run b\<lparr>sent := [profile_request (new_client\<lparr>identity_token := JStr ''stale''\<rparr>)]\<rparr>)"
  by (simp add: login_def load_identity_token_def get_user_profile_def http_def is_success_def
        stylize_run_facts new_client_fields)

lemma stylize_run_create:
  "create_image_task (new_client\<lparr>identity_token := JStr ''stale''\<rparr>)
     (stylize_run b\<lparr>sent := [rq]\<rparr>) ''cat.png'' enhance_feature
     = (Inr (JStr ''t1''),
        stylize_run b\<lparr>sent := [rq,
          task_request (new_client\<lparr>identity_token := JStr ''stale''\<rparr>)
            (JObj [(''image_content_type'', JStr ''image/jpeg''),
                   (''image_md5'', JStr ''md5''),
                   (''feature'', enhance_feature),
                   (''metadata'', JObj [(''size'', JNum 3)]),
                   (''options'', JObj [(''high_quality_output'', JBool False),
                                       (''save_input'', JBool True)])]),
          upload_request (new_client\<lparr>identity_token := JStr ''stale''\<rparr>)
            (JStr ''https://storage/put'') ''abc'' [(''x-goog'', JStr ''1'')]
            (JStr ''okhttp/4.12.0'')]\<rparr>)"
  by (simp add: create_image_task_def task_request_body_def calculate_md5_base64_def
        get_image_metadata_def upload_file_to_gcs_def http_def is_success_def
        stylize_run_facts new_client_agent)

lemma stylize_run_ping:
  "ping_for_processing self (stylize_run b\<lparr>sent := [r1, r2, r3]\<rparr>) task_id
     = (Inr (), stylize_run b\<lparr>sent := [r1, r2, r3,
          \<lparr>verb = POST, target = TaskProcess task_id,
           headers = AList.update ''content-length'' (JStr ''0'') (get_common_headers self None),
           payload = NoBody\<rparr>]\<rparr>)"
  by (simp add: ping_for_processing_def http_def is_success_def stylize_run_facts)

lemma stylize_run_poll:
  "poll_status_http (Suc 0) self (stylize_run base_completed\<lparr>sent := [r1, r2, r3, r4]\<rparr>) task_id
     = (Some (Inr (JStr ''https://x/base.jpg'')),
        stylize_run base_completed\<lparr>sent := [r1, r2, r3, r4, status_request self task_id]\<rparr>)"
  "poll_status_http (Suc 0) self
     (stylize_run (JObj [(''status'', JStr ''completed'')])\<lparr>sent := [r1, r2, r3, r4]\<rparr>) task_id
     = (Some (Inr JNull),
        stylize_run (JObj [(''status'', JStr ''completed'')])
          \<lparr>sent := [r1, r2, r3, r4, status_request self task_id]\<rparr>)"
  by (simp_all add: http_def is_success_def completed_url_def stylize_run_facts base_completed_def)

theorem stylize_reprocesses_with_style_witness:
  "exists_path (stylize_run base_completed) ''cat.png''
   \<and> fst (login new_client (stylize_run base_completed)) = Inr ()
   \<and> reprocess_request (new_client\<lparr>identity_token := JStr ''stale''\<rparr>) (JStr ''t1'')
         (style_feature ''toon'')
       \<in> set (sent (snd (snd (stylize (Suc 0) new_client (stylize_run base_completed)
                  ''cat.png'' ''toon'' None True))))
   \<and> exists_path (stylize_run (JObj [(''status'', JStr ''completed'')])) ''cat.png''
   \<and> fst (stylize (Suc 0) new_client (stylize_run (JObj [(''status'', JStr ''completed'')]))
            ''cat.png'' ''toon'' None True)
       = Some (Inl (ReminiError BaseTaskIncomplete))
   \<and> map target (sent (snd (snd (stylize (Suc 0) new_client
         (stylize_run (JObj [(''status'', JStr ''completed'')])) ''cat.png'' ''toon'' None True))))
       = [UsersMe, Tasks, Location (JStr ''https://storage/put''), TaskProcess (JStr ''t1''),
          Task (JStr ''t1'')]"
proof -
  let ?c1 = "new_client\<lparr>identity_token := JStr ''stale''\<rparr>"
  have e: "exists_path (stylize_run b) ''cat.png''" for b
    by (simp add: exists_path_def stylize_run_facts)
  note T1 = stylize_reprocesses_with_style
    [OF e stylize_run_login stylize_run_create stylize_run_ping stylize_run_poll(1),
     of "''toon''" None True]
  note T2 = stylize_reprocesses_with_style
    [OF e stylize_run_login stylize_run_create stylize_run_ping stylize_run_poll(2),
     of "''toon''" None True]
  from T1 have a: "reprocess_request ?c1 (JStr ''t1'') (style_feature ''toon'')
       \<in> set (sent (snd (snd (stylize (Suc 0) new_client (stylize_run base_completed)
                  ''cat.png'' ''toon'' None True))))"
    by auto
  from T2 have b: "stylize (Suc 0) new_client (stylize_run (JObj [(''status'', JStr ''completed'')]))
            ''cat.png'' ''toon'' None True
       = (Some (Inl (ReminiError BaseTaskIncomplete)), ?c1,
          stylize_run (JObj [(''status'', JStr ''completed'')])
            \<lparr>sent := [profile_request ?c1,
              task_request ?c1
                (JObj [(''image_content_type'', JStr ''image/jpeg''),
                       (''image_md5'', JStr ''md5''),
                       (''feature'', enhance_feature),
                       (''metadata'', JObj [(''size'', JNum 3)]),
                       (''options'', JObj [(''high_quality_output'', JBool False),
                                           (''save_input'', JBool True)])]),
              upload_request ?c1 (JStr ''https://storage/put'') ''abc'' [(''x-goog'', JStr ''1'')]
                (JStr ''okhttp/4.12.0''),
              \<lparr>verb = POST, target = TaskProcess (JStr ''t1''),
               headers = AList.update ''content-length'' (JStr ''0'')
                 (get_common_headers ?c1 None),
               payload = NoBody\<rparr>,
              status_request ?c1 (JStr ''t1'')]\<rparr>)"
    by simp
  from e a b stylize_run_login show ?thesis
    by (simp add: profile_request_def task_request_def upload_request_def status_request_def)
qed

end
